theory Spec2Isabelle
  imports Complex_Main "HOL-Library.AList" "HOL-Library.Sublist"
begin

section \<open>Strings of the source language\<close>

text \<open>
  A JavaScript string is modelled as a \<^typ>\<open>string\<close>, one \<^typ>\<open>char\<close> per code unit, so
  that \<open>length\<close> is the source's \<open>.length\<close>. The empty string is the one falsy string.
  The three string tests the translator uses are written as executable functions.
\<close>

definition endsWith :: "string \<Rightarrow> string \<Rightarrow> bool" where
  "endsWith s suf =
     (length suf \<le> length s \<and> drop (length s - length suf) s = suf)"

definition startsWith :: "string \<Rightarrow> string \<Rightarrow> bool" where
  "startsWith s pre = (take (length pre) s = pre)"

fun str_includes :: "string \<Rightarrow> string \<Rightarrow> bool" where
  "str_includes [] sub = (sub = [])"
| "str_includes (c # cs) sub = (startsWith (c # cs) sub \<or> str_includes cs sub)"

text \<open>
  \<open>String.prototype.trim\<close> removes white space from both ends; of the characters it
  counts as white space, the six that are ASCII are modelled.
\<close>

definition isSpace :: "char \<Rightarrow> bool" where
  "isSpace c = (c \<in> set [CHR '' '', CHR 0x09, CHR 0x0A, CHR 0x0B, CHR 0x0C, CHR 0x0D])"

definition trim :: "string \<Rightarrow> string" where
  "trim s = rev (dropWhile isSpace (rev (dropWhile isSpace s)))"

text \<open>\<open>Array.prototype.join\<close> on strings.\<close>

fun join :: "string \<Rightarrow> string list \<Rightarrow> string" where
  "join sep [] = []"
| "join sep [x] = x"
| "join sep (x # y # ys) = x @ sep @ join sep (y # ys)"

text \<open>\<open>Array.prototype.findIndex\<close>: the first index whose element passes, or none
  (the source's \<open>-1\<close>).\<close>

fun findIndex :: "('a \<Rightarrow> bool) \<Rightarrow> 'a list \<Rightarrow> nat option" where
  "findIndex P [] = None"
| "findIndex P (x # xs) =
     (if P x then Some 0 else map_option Suc (findIndex P xs))"

section \<open>Token estimator\<close>

text \<open>
  \<^verbatim>\<open>
  export function estimateTokensFromText(text) {
    if (!text) return 0;
    const normalized = typeof text === 'string' ? text : JSON.stringify(text);
    return Math.max(1, Math.ceil(normalized.length / 4));
  }
  \<close>
  The argument is a string at every call site modelled here.
\<close>

definition estimateTokensFromText :: "string \<Rightarrow> nat" where
  "estimateTokensFromText text =
     (if text = [] then 0
      else max 1 (nat \<lceil>real (length text) / 4\<rceil>))"

section \<open>Credential store and selector (token\_manager.js)\<close>

text \<open>
  A credential as persisted in the accounts file, and as held in memory (with the
  per-process \<open>sessionId\<close>). A missing or falsy field is the falsy value of its type:
  the empty string, or \<open>0\<close>. \<open>enable\<close> is \<open>False\<close> exactly when the source's field is
  \<open>false\<close> (the source only ever tests \<open>enable !== false\<close>).
\<close>

record disk_token =
  refresh_token :: string
  access_token :: string
  expires_in :: int
  timestamp :: int
  projectId :: string
  enable :: bool
  disabledModels :: "string list"

record mem_token = disk_token +
  sessionId :: string

text \<open>The quota monitor's cache entry, as far as \<open>markTokenUsed\<close> touches it.\<close>

record quota_entry =
  lastCheck :: int
  lastUsed :: int

type_synonym quota_cache = "string \<rightharpoonup> quota_entry"

record tm_state =
  tokens :: "mem_token list"
  currentIndex :: nat
  hourlyLimit :: int
  accountsFile :: "disk_token list"
  quotaMonitor :: "quota_cache option"








text \<open>
  \<^verbatim>\<open>
  saveToFile() {
    try {
      this.ensureDataFile();
      const data = fs.readFileSync(this.filePath, 'utf8');
      const allTokens = JSON.parse(data);
      this.tokens.forEach(memToken => {
        const index = allTokens.findIndex(t => t.refresh_token === memToken.refresh_token);
        if (index !== -1) {
          const { sessionId, ...tokenToSave } = memToken;
          allTokens[index] = tokenToSave;
        }
      });
      fs.writeFileSync(this.filePath, JSON.stringify(allTokens, null, 2), 'utf8');
    } catch (error) { log.error(...); }
  }
  \<close>
  The file is modelled by its parsed content, an array of credentials; \<open>mergeToken\<close> is
  the body of the \<open>forEach\<close>.
\<close>

definition mergeToken :: "disk_token list \<Rightarrow> mem_token \<Rightarrow> disk_token list" where
  "mergeToken allTokens memToken =
     (case findIndex (\<lambda>t. refresh_token t = refresh_token memToken) allTokens of
        Some index \<Rightarrow> allTokens[index := disk_token.truncate memToken]
      | None \<Rightarrow> allTokens)"

definition saveToFile :: "tm_state \<Rightarrow> tm_state" where
  "saveToFile s = s\<lparr>accountsFile := foldl mergeToken (accountsFile s) (tokens s)\<rparr>"

text \<open>
  How an entry of the accounts file after a write relates to the entry that stood at
  the same place before it: it is that entry, or a credential of the in-memory list
  \<open>M\<close> without its \<open>sessionId\<close> and with the same \<open>refresh_token\<close>.
\<close>

definition mergedFrom :: "mem_token set \<Rightarrow> disk_token \<Rightarrow> disk_token \<Rightarrow> bool" where
  "mergedFrom M d' d \<longleftrightarrow>
     d' = d \<or> (d' \<in> disk_token.truncate ` M \<and> refresh_token d' = refresh_token d)"












section \<open>Cooldown registry (model\_cooldown\_manager.js)\<close>






text \<open>
  A cooldown record. \<open>resetTimestamp\<close> stands for both the stored timestamp and the
  \<open>Date\<close> parsed from it (\<open>resetTime\<close>), in milliseconds. \<open>cooldownMap\<close> and \<open>timerMap\<close>
  are JavaScript \<open>Map\<close>s, kept as association lists in insertion order. A timer is
  stored under the key of its pair and its callback removes that pair, so a timer is
  represented by the time it fires at. \<open>cooldownsFile\<close> is the parsed content of the
  persisted document.
\<close>

record cooldown_info =
  cd_projectId :: string
  cd_model :: string
  resetTimestamp :: int
  cd_reason :: string
  createdAt :: int

record cooldown_state =
  cooldownMap :: "(string \<times> cooldown_info) list"
  timerMap :: "(string \<times> int) list"
  cooldownsFile :: "cooldown_info list"

definition buildKey :: "string \<Rightarrow> string \<Rightarrow> string" where
  "buildKey p m = p @ '':'' @ m"

definition cd_saveToFile :: "cooldown_state \<Rightarrow> cooldown_state" where
  "cd_saveToFile s = s\<lparr>cooldownsFile := map snd (cooldownMap s)\<rparr>"

text \<open>
  \<^verbatim>\<open>
  setCooldownInternal(projectId, model, resetTimestamp, reason, shouldSave) {
    const key = this.buildKey(projectId, model);
    const resetTime = new Date(resetTimestamp);
    const delayMs = resetTime.getTime() - Date.now();
    if (this.timerMap.has(key)) { clearTimeout(this.timerMap.get(key)); this.timerMap.delete(key); }
    this.cooldownMap.set(key, { projectId, model, resetTimestamp, resetTime, reason,
                                createdAt: new Date().toISOString() });
    if (delayMs > 0) {
      const timer = setTimeout(() => { this.removeCooldown(projectId, model); ... }, delayMs);
      if (timer.unref) timer.unref();
      this.timerMap.set(key, timer);
    } else {
      // Already expired, don't add
      this.cooldownMap.delete(key);
      return;
    }
    if (shouldSave) { this.saveToFile(); }
  }
  \<close>
\<close>

definition setCooldownInternal ::
  "int \<Rightarrow> cooldown_state \<Rightarrow> string \<Rightarrow> string \<Rightarrow> int \<Rightarrow> string \<Rightarrow> bool \<Rightarrow> cooldown_state" where
  "setCooldownInternal t s p m resetAt reason shouldSave =
     (let key = buildKey p m;
          delayMs = resetAt - t;
          s1 = s\<lparr>timerMap := AList.delete key (timerMap s)\<rparr>;
          s2 = s1\<lparr>cooldownMap := AList.update key
                 \<lparr>cd_projectId = p, cd_model = m, resetTimestamp = resetAt,
                  cd_reason = reason, createdAt = t\<rparr> (cooldownMap s1)\<rparr>
      in if delayMs > 0 then
           (let s3 = s2\<lparr>timerMap := AList.update key resetAt (timerMap s2)\<rparr>
            in if shouldSave then cd_saveToFile s3 else s3)
         else s2\<lparr>cooldownMap := AList.delete key (cooldownMap s2)\<rparr>)"

text \<open>
  \<open>removeCooldown(projectId, model)\<close>: clear and forget the timer of the key, forget the
  record, rewrite the file. \<open>fireDue\<close> is the event loop running the callbacks of the
  timers that are due at time \<open>t\<close>.
\<close>

definition removeKey :: "string \<Rightarrow> cooldown_state \<Rightarrow> cooldown_state" where
  "removeKey key s =
     cd_saveToFile (s\<lparr>timerMap := AList.delete key (timerMap s),
                      cooldownMap := AList.delete key (cooldownMap s)\<rparr>)"

definition removeCooldown :: "cooldown_state \<Rightarrow> string \<Rightarrow> string \<Rightarrow> cooldown_state" where
  "removeCooldown s p m = removeKey (buildKey p m) s"


text \<open>
  \<^verbatim>\<open>
  isOnCooldown(projectId, model) {
    const key = this.buildKey(projectId, model);
    const info = this.cooldownMap.get(key);
    if (!info) return false;
    if (info.resetTime <= new Date()) { this.removeCooldown(projectId, model); return false; }
    return true;
  }
  \<close>
\<close>

definition isOnCooldown :: "int \<Rightarrow> cooldown_state \<Rightarrow> string \<Rightarrow> string \<Rightarrow> bool \<times> cooldown_state" where
  "isOnCooldown t s p m =
     (case map_of (cooldownMap s) (buildKey p m) of
        None \<Rightarrow> (False, s)
      | Some info \<Rightarrow>
          if resetTimestamp info \<le> t then (False, removeCooldown s p m)
          else (True, s))"














section \<open>JSON values and tool schema cleaning\<close>

text \<open>
  A JSON value. An object is the list of its entries in insertion order, which is the
  order \<open>Object.entries\<close> reads them in as long as no key is an array index; keys are
  distinct. Numbers are integers here.
\<close>

datatype json =
  JNull
| JBool bool
| JNum int
| JStr string
| JArr "json list"
| JObj "(string \<times> json) list"

text \<open>JavaScript truthiness of a JSON value.\<close>

fun truthy :: "json \<Rightarrow> bool" where
  "truthy JNull = False"
| "truthy (JBool b) = b"
| "truthy (JNum n) = (n \<noteq> 0)"
| "truthy (JStr s) = (s \<noteq> [])"
| "truthy (JArr xs) = True"
| "truthy (JObj fs) = True"

text \<open>Decimal digits of a number, as \<open>String(n)\<close> prints an integer.\<close>

fun showNat :: "nat \<Rightarrow> string" where
  "showNat n =
     (if n < 10 then [char_of (48 + n)]
      else showNat (n div 10) @ [char_of (48 + n mod 10)])"

definition showInt :: "int \<Rightarrow> string" where
  "showInt i = (if i < 0 then ''-'' @ showNat (nat (- i)) else showNat (nat i))"

text \<open>
  \<open>String(value)\<close>, the conversion a template literal applies: an array joins the
  conversions of its elements with commas (\<open>null\<close> giving the empty string), an object
  is \<open>[object Object]\<close>.
\<close>

fun jsString :: "json \<Rightarrow> string" where
  "jsString JNull = ''null''"
| "jsString (JBool b) = (if b then ''true'' else ''false'')"
| "jsString (JNum n) = showInt n"
| "jsString (JStr s) = s"
| "jsString (JArr xs) =
     join '','' (map (\<lambda>x. if x = JNull then [] else jsString x) xs)"
| "jsString (JObj fs) = ''[object Object]''"

text \<open>
  \<^verbatim>\<open>
  const validationFields = { 'minLength': 'minLength', 'maxLength': 'maxLength',
    'minimum': 'minimum', 'maximum': 'maximum', 'minItems': 'minItems',
    'maxItems': 'maxItems', 'minProperties': 'minProperties',
    'maxProperties': 'maxProperties', 'pattern': 'pattern', 'format': 'format',
    'multipleOf': 'multipleOf' };
  const fieldsToRemove = new Set(['$schema', 'additionalProperties', 'uniqueItems',
    'exclusiveMinimum', 'exclusiveMaximum']);
  \<close>
\<close>

definition validationFields :: "(string \<times> string) list" where
  "validationFields =
     [(''minLength'', ''minLength''), (''maxLength'', ''maxLength''),
      (''minimum'', ''minimum''), (''maximum'', ''maximum''),
      (''minItems'', ''minItems''), (''maxItems'', ''maxItems''),
      (''minProperties'', ''minProperties''), (''maxProperties'', ''maxProperties''),
      (''pattern'', ''pattern''), (''format'', ''format''),
      (''multipleOf'', ''multipleOf'')]"

definition fieldsToRemove :: "string list" where
  "fieldsToRemove =
     [''$schema'', ''additionalProperties'', ''uniqueItems'', ''exclusiveMinimum'',
      ''exclusiveMaximum'']"

text \<open>
  \<^verbatim>\<open>
  const collectValidations = (obj) => {
    const validations = [];
    for (const [field, value] of Object.entries(validationFields)) {
      if (field in obj) { validations.push(`${field}: ${value}`); delete obj[field]; }
    }
    for (const field of fieldsToRemove) {
      if (field in obj) {
        if (field === 'additionalProperties' && obj[field] === false) {
          validations.push('no additional properties');
        }
        delete obj[field];
      }
    }
    return validations;
  };
  \<close>
  The function returns the messages; the deletions are \<open>strippedFields\<close> below.
\<close>

definition collectValidations :: "(string \<times> json) list \<Rightarrow> string list" where
  "collectValidations obj =
     concat (map (\<lambda>(field, v). if field \<in> fst ` set obj then [field @ '': '' @ v] else [])
               validationFields)
     @ concat (map (\<lambda>field.
                 if field \<in> fst ` set obj \<and> field = ''additionalProperties''
                    \<and> map_of obj field = Some (JBool False)
                 then [''no additional properties''] else [])
               fieldsToRemove)"

definition strippedFields :: "(string \<times> json) list \<Rightarrow> (string \<times> json) list" where
  "strippedFields obj =
     filter (\<lambda>(key, v). key \<notin> set (map fst validationFields) \<and> key \<notin> set fieldsToRemove) obj"

text \<open>\<open>Object.keys\<close> of a value that is an object or an array.\<close>

definition objectKeys :: "json \<Rightarrow> string list" where
  "objectKeys v =
     (case v of
        JObj fs \<Rightarrow> map fst fs
      | JArr xs \<Rightarrow> map showNat [0..<length xs]
      | _ \<Rightarrow> [])"

definition isObjectType :: "json \<Rightarrow> bool" where
  "isObjectType v = (case v of JObj fs \<Rightarrow> True | JArr xs \<Rightarrow> True | _ \<Rightarrow> False)"

text \<open>
  \<^verbatim>\<open>
      if (cleaned.required && Array.isArray(cleaned.required)) {
        if (cleaned.properties && typeof cleaned.properties === 'object') {
          const validProps = Object.keys(cleaned.properties);
          cleaned.required = cleaned.required.filter(prop => validProps.includes(prop));
        }
        if (cleaned.required.length === 0) { delete cleaned.required; }
      }
  \<close>
\<close>

definition fixRequired :: "(string \<times> json) list \<Rightarrow> (string \<times> json) list" where
  "fixRequired cleaned =
     (case map_of cleaned ''required'' of
        Some (JArr required) \<Rightarrow>
          (let required' =
                 (case map_of cleaned ''properties'' of
                    Some props \<Rightarrow>
                      if isObjectType props
                      then filter (\<lambda>prop. case prop of
                                     JStr name \<Rightarrow> name \<in> set (objectKeys props)
                                   | _ \<Rightarrow> False) required
                      else required
                  | None \<Rightarrow> required)
           in if length required' = 0 then AList.delete ''required'' cleaned
              else AList.update ''required'' (JArr required') cleaned)
      | _ \<Rightarrow> cleaned)"

text \<open>
  \<^verbatim>\<open>
  const cleanObject = (obj, path = '') => {
    if (Array.isArray(obj)) {
      return obj.map(item => typeof item === 'object' ? cleanObject(item, path) : item);
    } else if (obj && typeof obj === 'object') {
      const validations = collectValidations(obj, path);
      const cleaned = {};
      for (const [key, value] of Object.entries(obj)) {
        if (fieldsToRemove.has(key)) continue;
        if (key in validationFields) continue;
        if (key === 'description' && validations.length > 0 && path === '') {
          cleaned[key] = `${value || ''} (${validations.join(', ')})`.trim();
        } else {
          cleaned[key] = typeof value === 'object' ? cleanObject(value, `${path}.${key}`) : value;
        }
      }
      ... (the block on required, above)
      return cleaned;
    }
    return obj;
  };
  return cleanObject(schema);
  \<close>
  Only whether \<open>path\<close> is empty matters: it is empty at the root (and in the elements
  of an array at the root), and never below a key.
\<close>

function (sequential) cleanObject :: "bool \<Rightarrow> json \<Rightarrow> json" where
  "cleanObject atRoot (JArr items) = JArr (map (cleanObject atRoot) items)"
| "cleanObject atRoot (JObj obj) =
     (let validations = collectValidations obj
      in JObj (fixRequired
           (map (\<lambda>(key, v).
                   if key = ''description'' \<and> length validations > 0 \<and> atRoot
                   then (key, JStr (trim ((if truthy v then jsString v else [])
                                            @ '' ('' @ join '', '' validations @ '')'')))
                   else (key, cleanObject False v))
              (strippedFields obj))))"
| "cleanObject atRoot v = v"
  by pat_completeness auto
termination
proof (relation "measure (\<lambda>(atRoot, v). size v)", goal_cases)
  case 1
  show ?case by simp
next
  case (2 atRoot items x)
  then show ?case by (induction items) auto
next
  case (3 atRoot obj validations entry key v)
  have "(key, v) \<in> set obj"
    using 3 by (simp add: strippedFields_def)
  then have "size v < Suc (size_list (size_prod (\<lambda>x. 0) size) obj)"
    by (induction obj) auto
  then show ?case by simp
qed

definition cleanJsonSchema :: "json \<Rightarrow> json" where
  "cleanJsonSchema schema = cleanObject True schema"

section \<open>Request translator\<close>

text \<open>
  The client's message schema. A content block is one constructor per \<open>type\<close>; a field
  the client left out is the falsy value of its type. \<open>UnknownBlock\<close> stands for a block
  of any other type and for an entry that is not an object: both add no part.
\<close>

datatype image_source = Base64Source string string | UrlSource | OtherSource

datatype content_item = ContentItem string string

datatype tool_content =
  ContentStr string
| ContentArr "content_item list"
| ContentObj json
| ContentNone

datatype block =
  TextBlock string
| ImageBlock image_source
| ThinkingBlock string string
| RedactedThinkingBlock
| ToolUseBlock string string json
| ToolResultBlock string tool_content bool
| UnknownBlock

datatype msg_content = StringContent string | BlockContent "block list" | OtherContent string

record message =
  role :: string
  content :: msg_content

text \<open>
  The upstream content part: one of text, inline data, function call and function
  response, with the flag \<open>thought\<close> and the optional field \<open>thoughtSignature\<close>. A
  function response carries \<open>{error: s}\<close> when its flag is set and \<open>{result: s}\<close> otherwise.
\<close>

datatype part_body =
  PText string
| PInlineData string string
| PFunctionCall string string json
| PFunctionResponse string string bool string

record part =
  body :: part_body
  thought :: bool
  thoughtSignature :: "string option"

record gemini_content =
  c_role :: string
  c_parts :: "part list"

text \<open>\<open>Array.prototype.findLastIndex\<close>, for the two loops that run from the end.\<close>

fun findLastIndex :: "('a \<Rightarrow> bool) \<Rightarrow> 'a list \<Rightarrow> nat option" where
  "findLastIndex P [] = None"
| "findLastIndex P (x # xs) =
     (case findLastIndex P xs of
        Some i \<Rightarrow> Some (Suc i)
      | None \<Rightarrow> if P x then Some 0 else None)"

text \<open>
  \<^verbatim>\<open>
  function applySignatureToParts(parts, signature) {
    for (let i = 0; i < parts.length; i++) {
      if (parts[i].functionCall) { parts[i].thoughtSignature = signature; return; }
    }
    for (let i = parts.length - 1; i >= 0; i--) {
      if (parts[i].text && !parts[i].thought) { parts[i].thoughtSignature = signature; return; }
    }
    for (let i = parts.length - 1; i >= 0; i--) {
      if (parts[i].thought) { parts[i].thoughtSignature = signature; return; }
    }
  }
  \<close>
\<close>

definition isFunctionCall :: "part \<Rightarrow> bool" where
  "isFunctionCall p = (case body p of PFunctionCall i n a \<Rightarrow> True | _ \<Rightarrow> False)"

definition isPlainText :: "part \<Rightarrow> bool" where
  "isPlainText p = (case body p of PText t \<Rightarrow> t \<noteq> [] \<and> \<not> thought p | _ \<Rightarrow> False)"

definition setSignature :: "part list \<Rightarrow> nat \<Rightarrow> string \<Rightarrow> part list" where
  "setSignature ps i signature = ps[i := (ps ! i)\<lparr>thoughtSignature := Some signature\<rparr>]"

definition applySignatureToParts :: "part list \<Rightarrow> string \<Rightarrow> part list" where
  "applySignatureToParts ps signature =
     (case findIndex isFunctionCall ps of
        Some i \<Rightarrow> setSignature ps i signature
      | None \<Rightarrow>
          (case findLastIndex isPlainText ps of
             Some i \<Rightarrow> setSignature ps i signature
           | None \<Rightarrow>
               (case findLastIndex thought ps of
                  Some i \<Rightarrow> setSignature ps i signature
                | None \<Rightarrow> ps)))"

text \<open>
  The text of a redacted thinking block is a literal of seven CJK characters in square
  brackets; it is given here by its UTF-8 bytes.
\<close>

definition redactedText :: string where
  "redactedText = ''['' @
     [CHR 0xE6, CHR 0x80, CHR 0x9D, CHR 0xE8, CHR 0x80, CHR 0x83, CHR 0xE5, CHR 0x86, CHR 0x85,
      CHR 0xE5, CHR 0xAE, CHR 0xB9, CHR 0xE5, CHR 0xB7, CHR 0xB2, CHR 0xE9, CHR 0x9A, CHR 0x90,
      CHR 0xE8, CHR 0x97, CHR 0x8F] @ '']''"

text \<open>
  The content of a tool result as a string (the \<open>case 'tool_result'\<close> of the source):
  a string as it is, an array by its text items joined with newlines, an object by
  \<open>JSON.stringify\<close>, which is an argument of the model.
\<close>

definition toolResultString :: "(json \<Rightarrow> string) \<Rightarrow> tool_content \<Rightarrow> string" where
  "toolResultString stringify c =
     (case c of
        ContentStr s \<Rightarrow> s
      | ContentArr items \<Rightarrow>
          join [CHR 0x0A]
            (map (\<lambda>item. case item of ContentItem ty t \<Rightarrow> t)
               (filter (\<lambda>item. case item of ContentItem ty t \<Rightarrow> ty = ''text'') items))
      | ContentObj v \<Rightarrow> stringify v
      | ContentNone \<Rightarrow> [])"

definition plainPart :: "part_body \<Rightarrow> part" where
  "plainPart b = \<lparr>body = b, thought = False, thoughtSignature = None\<rparr>"

definition thoughtPart :: "string \<Rightarrow> part" where
  "thoughtPart t = \<lparr>body = PText t, thought = True, thoughtSignature = None\<rparr>"

text \<open>
  One pass of the loop of \<open>convertClaudeContentToGeminiParts\<close> over the blocks: the
  parts pushed so far and \<open>thinkingSignature\<close>, the first non-empty signature seen.
\<close>

fun convertBlock ::
  "(json \<Rightarrow> string) \<Rightarrow> part list \<times> string \<Rightarrow> block \<Rightarrow> part list \<times> string" where
  "convertBlock stringify (ps, sig) (TextBlock t) =
     (if t \<noteq> [] then ps @ [plainPart (PText t)] else ps, sig)"
| "convertBlock stringify (ps, sig) (ImageBlock (Base64Source media_type d)) =
     (ps @ [plainPart (PInlineData (if media_type \<noteq> [] then media_type else ''image/png'') d)],
      sig)"
| "convertBlock stringify (ps, sig) (ImageBlock src) = (ps, sig)"
| "convertBlock stringify (ps, sig) (ThinkingBlock thinking signature) =
     (if thinking \<noteq> [] then ps @ [thoughtPart thinking] else ps,
      if signature \<noteq> [] \<and> sig = [] then signature else sig)"
| "convertBlock stringify (ps, sig) RedactedThinkingBlock =
     (ps @ [thoughtPart redactedText], sig)"
| "convertBlock stringify (ps, sig) (ToolUseBlock i n input) =
     (ps @ [plainPart (PFunctionCall i n (if truthy input then input else JObj []))], sig)"
| "convertBlock stringify (ps, sig) (ToolResultBlock tool_use_id c is_error) =
     (ps @ [plainPart (PFunctionResponse tool_use_id [] is_error (toolResultString stringify c))],
      sig)"
| "convertBlock stringify (ps, sig) UnknownBlock = (ps, sig)"

definition convertClaudeContentToGeminiParts ::
  "(json \<Rightarrow> string) \<Rightarrow> msg_content \<Rightarrow> part list" where
  "convertClaudeContentToGeminiParts stringify c =
     (case c of
        StringContent s \<Rightarrow> [plainPart (PText s)]
      | OtherContent s \<Rightarrow> [plainPart (PText s)]
      | BlockContent blocks \<Rightarrow>
          (case foldl (convertBlock stringify) ([], []) blocks of
             (ps, thinkingSignature) \<Rightarrow>
               if thinkingSignature \<noteq> [] then applySignatureToParts ps thinkingSignature
               else ps))"

text \<open>
  The name of a function response is looked up in the earlier model turns, from the
  last one back:
  \<^verbatim>\<open>
          for (let i = contents.length - 1; i >= 0; i--) {
            if (contents[i].role === 'model') {
              for (const prevPart of contents[i].parts || []) {
                if (prevPart.functionCall?.id === part.functionResponse.id) {
                  part.functionResponse.name = prevPart.functionCall.name;
                  break;
                }
              }
              if (part.functionResponse.name) break;
            }
          }
  \<close>
  \<open>lookupCallName\<close> is the inner loop, \<open>backScan\<close> the outer one over the turns in
  reverse.
\<close>

fun lookupCallName :: "string \<Rightarrow> part list \<Rightarrow> string option" where
  "lookupCallName i [] = None"
| "lookupCallName i (p # ps) =
     (case body p of
        PFunctionCall j n a \<Rightarrow> if j = i then Some n else lookupCallName i ps
      | _ \<Rightarrow> lookupCallName i ps)"

fun backScan :: "string \<Rightarrow> string \<Rightarrow> gemini_content list \<Rightarrow> string" where
  "backScan i current [] = current"
| "backScan i current (c # cs) =
     (if c_role c = ''model'' then
        (case lookupCallName i (c_parts c) of
           Some n \<Rightarrow> if n \<noteq> [] then n else backScan i n cs
         | None \<Rightarrow> if current \<noteq> [] then current else backScan i current cs)
      else backScan i current cs)"

definition resolveName :: "gemini_content list \<Rightarrow> part \<Rightarrow> part" where
  "resolveName contents p =
     (case body p of
        PFunctionResponse i n is_error s \<Rightarrow>
          if n = [] then p\<lparr>body := PFunctionResponse i (backScan i n (rev contents)) is_error s\<rparr>
          else p
      | _ \<Rightarrow> p)"

text \<open>
  One pass of the loop over the client's messages in
  \<open>convertClaudeMessagesToGeminiContents\<close>: skip a message without a role, map the
  role, convert the content, resolve the names of function responses in a user turn,
  and append to the last turn when the role repeats. (The loop also registers thinking
  texts in the process-wide signature cache when the model name contains \<open>gemini-3\<close>;
  nothing in the translation reads that cache, and it is left out.)
\<close>

definition pushMessage ::
  "(json \<Rightarrow> string) \<Rightarrow> gemini_content list \<Rightarrow> message \<Rightarrow> gemini_content list" where
  "pushMessage stringify contents msg =
     (if role msg = [] then contents
      else
        let r = (if role msg = ''assistant'' then ''model'' else ''user'');
            ps = convertClaudeContentToGeminiParts stringify (content msg);
            ps' = (if r = ''user'' then map (resolveName contents) ps else ps)
        in if contents \<noteq> [] \<and> c_role (last contents) = r
           then butlast contents @ [(last contents)\<lparr>c_parts := c_parts (last contents) @ ps'\<rparr>]
           else contents @ [\<lparr>c_role = r, c_parts = ps'\<rparr>])"

text \<open>
  \<^verbatim>\<open>
  const enableThinking = modelName.endsWith('-thinking') ||
    modelName === 'gemini-2.5-pro' ||
    modelName.startsWith('gemini-3-pro-') ||
    modelName === 'rev19-uic3-1p' ||
    modelName === 'gpt-oss-120b-medium' ||
    modelName.includes('claude');
  \<close>
  This flag of \<open>convertClaudeMessagesToGeminiContents\<close> only decides whether the
  history is inspected.
\<close>

definition reasoningModel :: "string \<Rightarrow> bool" where
  "reasoningModel modelName \<longleftrightarrow>
     endsWith modelName ''-thinking'' \<or> modelName = ''gemini-2.5-pro''
     \<or> startsWith modelName ''gemini-3-pro-'' \<or> modelName = ''rev19-uic3-1p''
     \<or> modelName = ''gpt-oss-120b-medium''"

definition inspectsHistory :: "string \<Rightarrow> bool" where
  "inspectsHistory modelName \<longleftrightarrow> reasoningModel modelName \<or> str_includes modelName ''claude''"

definition unsignedThinking :: "block \<Rightarrow> bool" where
  "unsignedThinking b = (case b of ThinkingBlock t signature \<Rightarrow> signature = [] | _ \<Rightarrow> False)"

definition hasUnsignedThinking :: "message list \<Rightarrow> bool" where
  "hasUnsignedThinking msgs =
     list_ex (\<lambda>msg. role msg = ''assistant'' \<and>
                (case content msg of
                   BlockContent blocks \<Rightarrow> list_ex unsignedThinking blocks
                 | _ \<Rightarrow> False)) msgs"

text \<open>
  The last model turn: with no thought part thinking is disabled; with thought parts
  that do not come first the parts are reordered, thoughts first.
\<close>

definition checkLastModel :: "gemini_content list \<Rightarrow> gemini_content list \<times> bool" where
  "checkLastModel contents =
     (case findLastIndex (\<lambda>c. c_role c = ''model'') contents of
        None \<Rightarrow> (contents, False)
      | Some i \<Rightarrow>
          (let ps = c_parts (contents ! i) in
           if length ps > 0 then
             (if \<not> list_ex thought ps then (contents, True)
              else if \<not> thought (ps ! 0) then
                (contents[i := (contents ! i)
                    \<lparr>c_parts := filter thought ps @ filter (\<lambda>p. \<not> thought p) ps\<rparr>], False)
              else (contents, False))
           else (contents, False)))"

definition convertClaudeMessagesToGeminiContents ::
  "(json \<Rightarrow> string) \<Rightarrow> message list \<Rightarrow> string \<Rightarrow> gemini_content list \<times> bool" where
  "convertClaudeMessagesToGeminiContents stringify claudeMessages modelName =
     (let contents = foldl (pushMessage stringify) [] claudeMessages in
      if inspectsHistory modelName then
        (if hasUnsignedThinking claudeMessages then (contents, True)
         else checkLastModel contents)
      else (contents, False))"

text \<open>
  The client request, the configured defaults (\<open>config.defaults\<close> and
  \<open>config.systemInstruction\<close>) and the upstream request. \<open>messages\<close> is \<open>None\<close> when the
  field is not an array. Sampling parameters are rationals.
\<close>

datatype system_block = SysString string | SysObject string string

datatype system_prompt = SystemString string | SystemArray "system_block list"

record tool =
  tool_name :: string
  tool_description :: string
  input_schema :: json

record claude_request =
  model :: string
  messages :: "message list option"
  system :: "system_prompt option"
  tools :: "tool list"
  max_tokens :: "int option"
  temperature :: "rat option"
  top_p :: "rat option"
  top_k :: "int option"
  stop_sequences :: "string list option"

record config =
  default_top_p :: rat
  default_top_k :: int
  default_temperature :: rat
  default_max_tokens :: int
  config_systemInstruction :: string

record thinking_config =
  includeThoughts :: bool
  thinkingBudget :: nat

record generation_config =
  topP :: "rat option"
  topK :: int
  g_temperature :: rat
  candidateCount :: nat
  maxOutputTokens :: int
  stopSequences :: "string list"
  thinkingConfig :: thinking_config

record function_declaration =
  fd_name :: string
  fd_description :: string
  fd_parameters :: json

record gemini_request =
  project :: string
  requestId :: string
  g_model :: string
  userAgent :: string
  contents :: "gemini_content list"
  systemInstruction :: gemini_content
  g_tools :: "function_declaration list list"
  toolConfigMode :: "string option"
  generationConfig :: generation_config
  g_sessionId :: string

text \<open>
  \<^verbatim>\<open>
  function generateGenerationConfig(claudeRequest, modelName, forceDisableThinking = false) {
    const enableThinking = !forceDisableThinking && (
      modelName.endsWith('-thinking') ||
      modelName === 'gemini-2.5-pro' ||
      modelName.startsWith('gemini-3-pro-') ||
      modelName === 'rev19-uic3-1p' ||
      modelName === 'gpt-oss-120b-medium'
    );
    const generationConfig = {
      topP: claudeRequest.top_p ?? config.defaults.top_p,
      topK: claudeRequest.top_k ?? config.defaults.top_k,
      temperature: claudeRequest.temperature ?? config.defaults.temperature,
      candidateCount: 1,
      maxOutputTokens: claudeRequest.max_tokens ?? config.defaults.max_tokens,
      stopSequences: claudeRequest.stop_sequences || [ "<|user|>", "<|bot|>",
        "<|context_request|>", "<|endoftext|>", "<|end_of_turn|>" ],
      thinkingConfig: {
        includeThoughts: enableThinking,
        thinkingBudget: enableThinking ? 1024 : 0
      }
    };
    if (enableThinking && modelName.includes('claude')) { delete generationConfig.topP; }
    return generationConfig;
  }
  \<close>
\<close>

definition enableThinking :: "string \<Rightarrow> bool \<Rightarrow> bool" where
  "enableThinking modelName forceDisableThinking \<longleftrightarrow>
     \<not> forceDisableThinking \<and>
     (endsWith modelName ''-thinking'' \<or> modelName = ''gemini-2.5-pro''
      \<or> startsWith modelName ''gemini-3-pro-'' \<or> modelName = ''rev19-uic3-1p''
      \<or> modelName = ''gpt-oss-120b-medium'')"

definition generateGenerationConfig ::
  "config \<Rightarrow> claude_request \<Rightarrow> string \<Rightarrow> bool \<Rightarrow> generation_config" where
  "generateGenerationConfig cfg claudeRequest modelName forceDisableThinking =
     (let enabled = enableThinking modelName forceDisableThinking;
          generationConfig =
            \<lparr>topP = Some (case top_p claudeRequest of Some v \<Rightarrow> v | None \<Rightarrow> default_top_p cfg),
             topK = (case top_k claudeRequest of Some v \<Rightarrow> v | None \<Rightarrow> default_top_k cfg),
             g_temperature =
               (case temperature claudeRequest of Some v \<Rightarrow> v | None \<Rightarrow> default_temperature cfg),
             candidateCount = 1,
             maxOutputTokens =
               (case max_tokens claudeRequest of Some v \<Rightarrow> v | None \<Rightarrow> default_max_tokens cfg),
             stopSequences =
               (case stop_sequences claudeRequest of
                  Some v \<Rightarrow> v
                | None \<Rightarrow> [''<|user|>'', ''<|bot|>'', ''<|context_request|>'', ''<|endoftext|>'',
                            ''<|end_of_turn|>'']),
             thinkingConfig =
               \<lparr>includeThoughts = enabled, thinkingBudget = (if enabled then 1024 else 0)\<rparr>\<rparr>
      in if enabled \<and> str_includes modelName ''claude''
         then generationConfig\<lparr>topP := None\<rparr>
         else generationConfig)"

text \<open>
  \<^verbatim>\<open>
  function convertClaudeToolsToGeminiTools(claudeTools) {
    if (!Array.isArray(claudeTools) || claudeTools.length === 0) { return []; }
    return claudeTools.map(tool => ({
      functionDeclarations: [{ name: tool.name, description: tool.description,
        parameters: cleanJsonSchema(tool.input_schema || {}) }]
    }));
  }
  \<close>
\<close>

definition convertClaudeToolsToGeminiTools :: "tool list \<Rightarrow> function_declaration list list" where
  "convertClaudeToolsToGeminiTools claudeTools =
     map (\<lambda>t. [\<lparr>fd_name = tool_name t, fd_description = tool_description t,
                  fd_parameters =
                    cleanJsonSchema (if truthy (input_schema t) then input_schema t else JObj [])\<rparr>])
       claudeTools"

text \<open>The text of the client's system prompt, as \<open>convertClaudeToGeminiRequest\<close> reads it.\<close>

definition systemText :: "system_prompt \<Rightarrow> string" where
  "systemText sp =
     (case sp of
        SystemString s \<Rightarrow> s
      | SystemArray blocks \<Rightarrow>
          join [CHR 0x0A]
            (map (\<lambda>b. case b of
                         SysString s \<Rightarrow> s
                       | SysObject ty t \<Rightarrow> if ty = ''text'' then t else []) blocks))"

definition stripThoughtSignature :: "gemini_content \<Rightarrow> gemini_content" where
  "stripThoughtSignature c = c\<lparr>c_parts := map (\<lambda>p. p\<lparr>thoughtSignature := None\<rparr>) (c_parts c)\<rparr>"

text \<open>
  \<open>convertClaudeToGeminiRequest(claudeRequest, token)\<close>. It throws when \<open>messages\<close> is
  not a non-empty array; \<open>generateRequestId()\<close> is the argument \<open>rid\<close>.
  \<^verbatim>\<open>
  let finalMaxTokens = max_tokens;
  if (typeof finalMaxTokens !== 'number' || Number.isNaN(finalMaxTokens)) { finalMaxTokens = 64000; }
  claudeRequest.max_tokens = finalMaxTokens;
  const actualModelName = model || 'gemini-2.0-flash-exp';
  const { contents, shouldDisableThinking } =
    convertClaudeMessagesToGeminiContents(messages, actualModelName);
  if (actualModelName.includes('claude')) {
    for (const content of contents) { ... delete part.thoughtSignature; ... }
  }
  ...
  const geminiTools = convertClaudeToolsToGeminiTools(tools);
  const generationConfig =
    generateGenerationConfig(claudeRequest, actualModelName, shouldDisableThinking);
  \<close>
\<close>

datatype translate_error = MessagesEmpty

definition convertClaudeToGeminiRequest ::
  "(json \<Rightarrow> string) \<Rightarrow> config \<Rightarrow> string \<Rightarrow> claude_request \<Rightarrow> mem_token
     \<Rightarrow> translate_error + gemini_request" where
  "convertClaudeToGeminiRequest stringify cfg rid claudeRequest token =
     (case messages claudeRequest of
        None \<Rightarrow> Inl MessagesEmpty
      | Some msgs \<Rightarrow>
          if length msgs = 0 then Inl MessagesEmpty
          else
            (let finalMaxTokens = (case max_tokens claudeRequest of Some v \<Rightarrow> v | None \<Rightarrow> 64000);
                 claudeRequest' = claudeRequest\<lparr>max_tokens := Some finalMaxTokens\<rparr>;
                 actualModelName =
                   (if model claudeRequest \<noteq> [] then model claudeRequest
                    else ''gemini-2.0-flash-exp'')
             in case convertClaudeMessagesToGeminiContents stringify msgs actualModelName of
                  (cs, shouldDisableThinking) \<Rightarrow>
                    (let cs' = (if str_includes actualModelName ''claude''
                                then map stripThoughtSignature cs else cs);
                         sysText =
                           (case system claudeRequest of
                              Some sp \<Rightarrow>
                                if systemText sp \<noteq> [] then systemText sp
                                else config_systemInstruction cfg
                            | None \<Rightarrow> config_systemInstruction cfg);
                         geminiTools = convertClaudeToolsToGeminiTools (tools claudeRequest)
                     in Inr
                          \<lparr>project = projectId token,
                           requestId = rid,
                           g_model = actualModelName,
                           userAgent = ''antigravity'',
                           contents = cs',
                           systemInstruction =
                             \<lparr>c_role = ''user'', c_parts = [plainPart (PText sysText)]\<rparr>,
                           g_tools = geminiTools,
                           toolConfigMode =
                             (if length geminiTools > 0 then Some ''VALIDATED'' else None),
                           generationConfig =
                             generateGenerationConfig cfg claudeRequest' actualModelName
                               shouldDisableThinking,
                           g_sessionId = sessionId token\<rparr>)))"

subsection \<open>Signature placement: vocabulary\<close>

text \<open>
  The parts of a turn as the first phase builds them, the first non-empty signature
  among its thinking blocks, and the number of parts that carry a signature.
\<close>

definition builtParts :: "(json \<Rightarrow> string) \<Rightarrow> block list \<Rightarrow> part list" where
  "builtParts stringify blocks = fst (foldl (convertBlock stringify) ([], []) blocks)"

definition signatures :: "block list \<Rightarrow> string list" where
  "signatures blocks =
     concat (map (\<lambda>b. case b of ThinkingBlock t s \<Rightarrow> [s] | _ \<Rightarrow> []) blocks)"

definition firstSignature :: "block list \<Rightarrow> string option" where
  "firstSignature blocks = find (\<lambda>s. s \<noteq> []) (signatures blocks)"

definition carriers :: "part list \<Rightarrow> nat" where
  "carriers ps = length (filter (\<lambda>p. thoughtSignature p \<noteq> None) ps)"

definition eligible :: "part \<Rightarrow> bool" where
  "eligible p \<longleftrightarrow> isFunctionCall p \<or> isPlainText p \<or> thought p"

section \<open>Stream emitter (ClaudeSseEmitter)\<close>





record tool_call =
  tc_id :: string
  tc_name :: string
  tc_arguments :: "string option"

record usage =
  completion_tokens :: "nat option"
  output_tokens :: "nat option"
  prompt_tokens :: "nat option"
  input_tokens :: "nat option"














text \<open>A sequence of calls on the emitter.\<close>

datatype call =
  Start
| SendText string
| SendThinking string
| SendToolCalls "tool_call list"
| Finish "usage option"



subsection \<open>Block discipline of an event stream\<close>








section \<open>Request-level token count\<close>

text \<open>
  \<^verbatim>\<open>
  function extractTextFromClaudeMessages(messages = []) {
    return messages.map(msg => {
        if (typeof msg?.content === 'string') return msg.content;
        if (!Array.isArray(msg?.content)) return '';
        return msg.content.map(block => {
            if (!block || typeof block !== 'object') return '';
            if (block.type === 'text') return block.text || '';
            if (block.type === 'thinking') return block.thinking || '';
            if (block.type === 'tool_use') {
              return `<invoke name="${block.name}">${JSON.stringify(block.input || {})}</invoke>`;
            }
            if (block.type === 'tool_result') {
              return `<tool_result id="${block.tool_use_id}">${block.content ?? ''}</tool_result>`;
            }
            return '';
          }).join('');
      }).join('\n');
  }
  \<close>
  \<open>JSON.stringify\<close> is an argument. The content of a tool result is converted as a
  template literal converts it: an array of items gives \<open>[object Object]\<close> per item,
  joined with commas.
\<close>

definition toolContentString :: "tool_content \<Rightarrow> string" where
  "toolContentString c =
     (case c of
        ContentStr s \<Rightarrow> s
      | ContentArr items \<Rightarrow> join '','' (map (\<lambda>item. ''[object Object]'') items)
      | ContentObj v \<Rightarrow> jsString v
      | ContentNone \<Rightarrow> [])"

fun blockText :: "(json \<Rightarrow> string) \<Rightarrow> block \<Rightarrow> string" where
  "blockText stringify (TextBlock t) = t"
| "blockText stringify (ThinkingBlock t s) = t"
| "blockText stringify (ToolUseBlock i n input) =
     ''<invoke name='' @ [CHR 0x22] @ n @ [CHR 0x22] @ ''>''
       @ stringify (if truthy input then input else JObj []) @ ''</invoke>''"
| "blockText stringify (ToolResultBlock i c e) =
     ''<tool_result id='' @ [CHR 0x22] @ i @ [CHR 0x22] @ ''>''
       @ toolContentString c @ ''</tool_result>''"
| "blockText stringify b = []"

definition extractTextFromClaudeMessages :: "(json \<Rightarrow> string) \<Rightarrow> message list \<Rightarrow> string" where
  "extractTextFromClaudeMessages stringify msgs =
     join [CHR 0x0A]
       (map (\<lambda>msg. case content msg of
                      StringContent s \<Rightarrow> s
                    | BlockContent blocks \<Rightarrow> concat (map (blockText stringify) blocks)
                    | OtherContent s \<Rightarrow> [])
          msgs)"

text \<open>
  \<^verbatim>\<open>
  export function countClaudeTokens(request) {
    if (!request || !Array.isArray(request.messages)) { throw new Error(...); }
    let totalText = extractTextFromClaudeMessages(request.messages);
    if (request.system) {
      const systemText = Array.isArray(request.system)
        ? request.system.map(block => (typeof block === 'string' ? block : block?.text || '')).join('\n')
        : request.system;
      totalText += `\n${systemText || ''}`;
    }
    if (request.tools && request.tools.length > 0) {
      totalText += `\n${JSON.stringify(request.tools)}`;
    }
    const inputTokens = estimateTokensFromText(totalText);
    return { input_tokens: inputTokens, token_count: inputTokens, tokens: inputTokens };
  }
  \<close>
\<close>

record token_count =
  ct_input_tokens :: nat
  ct_token_count :: nat
  ct_tokens :: nat

definition toolJson :: "tool \<Rightarrow> json" where
  "toolJson t =
     JObj [(''name'', JStr (tool_name t)), (''description'', JStr (tool_description t)),
           (''input_schema'', input_schema t)]"

definition countSystemText :: "system_prompt \<Rightarrow> string" where
  "countSystemText sp =
     (case sp of
        SystemString s \<Rightarrow> s
      | SystemArray blocks \<Rightarrow>
          join [CHR 0x0A]
            (map (\<lambda>b. case b of SysString s \<Rightarrow> s | SysObject ty t \<Rightarrow> t) blocks))"

definition systemTruthy :: "system_prompt \<Rightarrow> bool" where
  "systemTruthy sp = (case sp of SystemString s \<Rightarrow> s \<noteq> [] | SystemArray blocks \<Rightarrow> True)"

definition totalText :: "(json \<Rightarrow> string) \<Rightarrow> claude_request \<Rightarrow> message list \<Rightarrow> string" where
  "totalText stringify request msgs =
     extractTextFromClaudeMessages stringify msgs
     @ (case system request of
          Some sp \<Rightarrow> if systemTruthy sp then [CHR 0x0A] @ countSystemText sp else []
        | None \<Rightarrow> [])
     @ (if length (tools request) > 0
        then [CHR 0x0A] @ stringify (JArr (map toolJson (tools request)))
        else [])"

definition countClaudeTokens ::
  "(json \<Rightarrow> string) \<Rightarrow> claude_request \<Rightarrow> translate_error + token_count" where
  "countClaudeTokens stringify request =
     (case messages request of
        None \<Rightarrow> Inl MessagesEmpty
      | Some msgs \<Rightarrow>
          (let inTokens = estimateTokensFromText (totalText stringify request msgs)
           in Inr \<lparr>ct_input_tokens = inTokens, ct_token_count = inTokens,
                   ct_tokens = inTokens\<rparr>))"

section \<open>Concrete states and requests\<close>

text \<open>
  The data of the spec's literal scenarios and of the other concrete runs the theorems
  below are evaluated on.
\<close>

definition tokA :: mem_token where
  "tokA = \<lparr>refresh_token = ''rA'', access_token = ''aA'', expires_in = 3600, timestamp = 1000,
     projectId = ''A'', enable = True, disabledModels = [], sessionId = ''s1''\<rparr>"

definition tokB :: mem_token where
  "tokB = \<lparr>refresh_token = ''rB'', access_token = ''aB'', expires_in = 3600, timestamp = 1000,
     projectId = ''B'', enable = True, disabledModels = [], sessionId = ''s2''\<rparr>"

definition diskA :: disk_token where
  "diskA = \<lparr>refresh_token = ''rA'', access_token = ''old'', expires_in = 0, timestamp = 0,
     projectId = [], enable = True, disabledModels = []\<rparr>"

definition diskC :: disk_token where
  "diskC = \<lparr>refresh_token = ''rC'', access_token = ''aC'', expires_in = 0, timestamp = 0,
     projectId = [], enable = False, disabledModels = []\<rparr>"

definition storeAB :: tm_state where
  "storeAB = \<lparr>tokens = [tokA, tokB], currentIndex = 0, hourlyLimit = 20,
     accountsFile = [diskA, diskC], quotaMonitor = None\<rparr>"



definition liveState :: cooldown_state where
  "liveState = setCooldownInternal 0 \<lparr>cooldownMap = [], timerMap = [], cooldownsFile = []\<rparr>
      ''A'' ''gemini-2.5-pro'' 100 ''RESOURCE_EXHAUSTED'' True"



text \<open>The literal schema of the spec's scenario 5, and the result the spec gives for it.\<close>

definition scenario5 :: json where
  "scenario5 = JObj
     [(''type'', JStr ''object''),
      (''properties'', JObj [(''x'', JObj [(''type'', JStr ''string''), (''minLength'', JNum 3)])]),
      (''required'', JArr [JStr ''x'', JStr ''y'']),
      (''additionalProperties'', JBool False),
      (''$schema'', JStr ''...'')]"

definition scenario5described :: json where
  "scenario5described = JObj
     [(''description'', JStr ''d''),
      (''type'', JStr ''object''),
      (''properties'', JObj [(''x'', JObj [(''type'', JStr ''string''), (''minLength'', JNum 3)])]),
      (''required'', JArr [JStr ''x'', JStr ''y'']),
      (''additionalProperties'', JBool False),
      (''$schema'', JStr ''...'')]"

definition claimed5 :: json where
  "claimed5 = JObj
     [(''type'', JStr ''object''),
      (''properties'', JObj [(''x'', JObj [(''type'', JStr ''string'')])]),
      (''required'', JArr [JStr ''x'']),
      (''description'', JStr ''(minLength: minLength, no additional properties)'')]"

text \<open>Concrete requests: the configured defaults, a stand-in for \<open>JSON.stringify\<close>, and
  a one-message request for a given model.\<close>

definition cfg0 :: config where
  "cfg0 = \<lparr>default_top_p = 85 / 100, default_top_k = 50, default_temperature = 1,
     default_max_tokens = 8096, config_systemInstruction = []\<rparr>"

definition stringify0 :: "json \<Rightarrow> string" where
  "stringify0 v = jsString v"

definition helloRequest :: "string \<Rightarrow> claude_request" where
  "helloRequest m =
     \<lparr>model = m, messages = Some [\<lparr>role = ''user'', content = StringContent ''hello''\<rparr>],
      system = None, tools = [], max_tokens = None, temperature = None, top_p = None,
      top_k = None, stop_sequences = None\<rparr>"

text \<open>The assistant turn of the spec's scenario 4, and a turn whose signature finds no
  part to sit on.\<close>

definition turn4 :: "block list" where
  "turn4 = [ThinkingBlock ''t1'' ''S'', TextBlock ''hi'']"

definition turnNoTarget :: "block list" where
  "turnNoTarget = [ThinkingBlock [] ''S'', ImageBlock (Base64Source ''image/png'' ''AAAA'')]"

definition request4 :: "string \<Rightarrow> claude_request" where
  "request4 m =
     \<lparr>model = m, messages = Some [\<lparr>role = ''assistant'', content = BlockContent turn4\<rparr>],
      system = None, tools = [], max_tokens = None, temperature = None, top_p = None,
      top_k = None, stop_sequences = None\<rparr>"






section \<open>Properties\<close>

subsection \<open>Strings and arithmetic\<close>

lemma ceiling_quarter: "nat \<lceil>real n / 4\<rceil> = (n + 3) div 4"
proof -
  have "\<lceil>real n / 4\<rceil> = \<lceil>real_of_int (int n) / real_of_int 4\<rceil>"
    by simp
  also have "\<dots> = - ((- int n) div 4)"
    by (simp only: ceiling_divide_eq_div)
  also have "\<dots> = int ((n + 3) div 4)"
    by (simp add: zdiv_int)
  finally show ?thesis by simp
qed

lemma estimate_code:
  "estimateTokensFromText text =
     (if text = [] then 0 else max 1 ((length text + 3) div 4))"
  by (simp add: estimateTokensFromText_def ceiling_quarter)




lemma map_of_delete_same: "map_of (AList.delete k xs) k = None"
  by (simp add: AList.delete_conv)

subsection \<open>Cooldown registry\<close>

text \<open>
  C9. Installing a cooldown whose deadline is not in the future cancels the pair: after
  \<open>setCooldownInternal\<close> with \<open>resetAt \<le> now\<close> the in-memory map holds no record (and the
  timer map no timer) under the key of the pair, whatever stood there before, and
  \<open>isOnCooldown\<close> answers \<open>false\<close> for the pair at any later query, leaving the state as
  it is.
\<close>

theorem setCooldownInternal_past_cancels:
  assumes "resetAt \<le> t"
  shows "map_of (cooldownMap (setCooldownInternal t s p m resetAt reason shouldSave)) (buildKey p m) = None
       \<and> map_of (timerMap (setCooldownInternal t s p m resetAt reason shouldSave)) (buildKey p m) = None
       \<and> isOnCooldown t' (setCooldownInternal t s p m resetAt reason shouldSave) p m
           = (False, setCooldownInternal t s p m resetAt reason shouldSave)"
  using assms
  by (simp add: setCooldownInternal_def Let_def isOnCooldown_def AList.delete_conv)

theorem setCooldownInternal_past_cancels_witness:
  "(40::int) \<le> 50
   \<and> map_of (cooldownMap liveState) (buildKey ''A'' ''gemini-2.5-pro'') \<noteq> None
   \<and> fst (isOnCooldown 50 liveState ''A'' ''gemini-2.5-pro'')
   \<and> map_of (cooldownMap (setCooldownInternal 50 liveState ''A'' ''gemini-2.5-pro'' 40
         ''RESOURCE_EXHAUSTED'' True)) (buildKey ''A'' ''gemini-2.5-pro'') = None
   \<and> \<not> fst (isOnCooldown 50 (setCooldownInternal 50 liveState ''A'' ''gemini-2.5-pro'' 40
         ''RESOURCE_EXHAUSTED'' True) ''A'' ''gemini-2.5-pro'')"
proof -
  have le: "(40::int) \<le> 50" by simp
  have live: "map_of (cooldownMap liveState) (buildKey ''A'' ''gemini-2.5-pro'') \<noteq> None
     \<and> fst (isOnCooldown 50 liveState ''A'' ''gemini-2.5-pro'')"
    by (simp add: liveState_def setCooldownInternal_def isOnCooldown_def buildKey_def
        cd_saveToFile_def Let_def)
  show ?thesis
    using le live
      setCooldownInternal_past_cancels [OF le, of liveState "''A''" "''gemini-2.5-pro''"
        "''RESOURCE_EXHAUSTED''" True 50]
    by simp
qed

subsection \<open>Credential persistence\<close>

lemma findIndex_Some: "findIndex P xs = Some i \<Longrightarrow> i < length xs \<and> P (xs ! i)"
proof (induction xs arbitrary: i)
  case Nil
  then show ?case by simp
next
  case (Cons x xs)
  then show ?case by (auto split: if_splits)
qed

lemma truncate_refresh_token: "refresh_token (disk_token.truncate m) = refresh_token m"
  by (simp add: disk_token.truncate_def)

lemma mergeToken_refresh_tokens:
  "map refresh_token (mergeToken all m) = map refresh_token all"
proof (cases "findIndex (\<lambda>t. refresh_token t = refresh_token m) all")
  case None
  then show ?thesis by (simp add: mergeToken_def)
next
  case (Some i)
  then have "i < length all" "refresh_token (all ! i) = refresh_token m"
    using findIndex_Some[OF Some] by auto
  then show ?thesis
    by (simp add: mergeToken_def Some map_update truncate_refresh_token list_update_same_conv)
qed

lemma foldl_mergeToken_refresh_tokens:
  "map refresh_token (foldl mergeToken all ms) = map refresh_token all"
  by (induction ms arbitrary: all) (simp_all add: mergeToken_refresh_tokens)

lemma mergedFrom_refresh_token: "mergedFrom M d' d \<Longrightarrow> refresh_token d' = refresh_token d"
  by (auto simp: mergedFrom_def)

lemma mergeToken_rel:
  assumes rel: "list_all2 (mergedFrom M) all orig" and m: "m \<in> M"
  shows "list_all2 (mergedFrom M) (mergeToken all m) orig"
proof (cases "findIndex (\<lambda>t. refresh_token t = refresh_token m) all")
  case None
  then show ?thesis using rel by (simp add: mergeToken_def)
next
  case (Some i)
  have i: "i < length all" and rt: "refresh_token (all ! i) = refresh_token m"
    using findIndex_Some[OF Some] by auto
  have len: "length all = length orig"
    using rel by (rule list_all2_lengthD)
  have "mergedFrom M (all ! i) (orig ! i)"
    using rel i by (simp add: list_all2_conv_all_nth)
  then have "refresh_token (orig ! i) = refresh_token m"
    using rt mergedFrom_refresh_token by fastforce
  then have new: "mergedFrom M (disk_token.truncate m) (orig ! i)"
    using m by (simp add: mergedFrom_def truncate_refresh_token)
  have "list_all2 (mergedFrom M) (all[i := disk_token.truncate m]) (orig[i := orig ! i])"
    using rel new by (rule list_all2_update_cong)
  then show ?thesis
    by (simp add: mergeToken_def Some)
qed

lemma foldl_mergeToken_rel:
  "list_all2 (mergedFrom M) all orig \<Longrightarrow> set ms \<subseteq> M
     \<Longrightarrow> list_all2 (mergedFrom M) (foldl mergeToken all ms) orig"
proof (induction ms arbitrary: all)
  case Nil
  then show ?case by simp
next
  case (Cons m ms)
  then show ?case
    by (simp add: mergeToken_rel)
qed

text \<open>
  C10. Persisting the credential store never inserts a credential that is only in
  memory: the sequence of \<open>refresh_token\<close>s in the accounts file is the same before and
  after \<open>saveToFile\<close>, the array keeps its length, and each entry is either untouched or
  replaced by an in-memory credential of the same \<open>refresh_token\<close> with \<open>sessionId\<close>
  stripped.
\<close>

theorem saveToFile_keeps_refresh_tokens:
  "map refresh_token (accountsFile (saveToFile s)) = map refresh_token (accountsFile s)
   \<and> length (accountsFile (saveToFile s)) = length (accountsFile s)
   \<and> list_all2 (mergedFrom (set (tokens s))) (accountsFile (saveToFile s)) (accountsFile s)"
proof -
  have a: "map refresh_token (accountsFile (saveToFile s)) = map refresh_token (accountsFile s)"
    by (simp add: saveToFile_def foldl_mergeToken_refresh_tokens)
  have "list_all2 (mergedFrom (set (tokens s))) (accountsFile s) (accountsFile s)"
    by (simp add: list_all2_conv_all_nth mergedFrom_def)
  then have c: "list_all2 (mergedFrom (set (tokens s))) (accountsFile (saveToFile s)) (accountsFile s)"
    by (simp add: saveToFile_def foldl_mergeToken_rel)
  from a have "length (map refresh_token (accountsFile (saveToFile s)))
      = length (map refresh_token (accountsFile s))"
    by simp
  then have b: "length (accountsFile (saveToFile s)) = length (accountsFile s)"
    by simp
  show ?thesis using a b c by simp
qed

theorem saveToFile_keeps_refresh_tokens_witness:
  "accountsFile (saveToFile storeAB) = [disk_token.truncate tokA, diskC]
   \<and> map refresh_token (accountsFile (saveToFile storeAB)) = [''rA'', ''rC'']
   \<and> refresh_token tokB \<notin> set (map refresh_token (accountsFile (saveToFile storeAB)))"
proof -
  have "accountsFile (saveToFile storeAB) = [disk_token.truncate tokA, diskC]"
    by (simp add: saveToFile_def storeAB_def mergeToken_def tokA_def tokB_def diskA_def
        diskC_def disk_token.truncate_def)
  moreover have "map refresh_token (accountsFile storeAB) = [''rA'', ''rC'']"
    by (simp add: storeAB_def diskA_def diskC_def)
  ultimately show ?thesis
    using saveToFile_keeps_refresh_tokens [of storeAB]
    by (simp add: tokB_def)
qed

subsection \<open>Group-wide cooldown\<close>

lemma buildKey_inj: "buildKey p m = buildKey p m' \<longleftrightarrow> m = m'"
  by (simp add: buildKey_def)











subsection \<open>Credential selector\<close>










subsection \<open>Cooldown respect\<close>



























subsection \<open>Schema cleaning\<close>

text \<open>
  C4 (as amended). Cleaning the literal schema returns exactly
  \<open>{type: "object", properties: {x: {type: "string"}}, required: ["x"]}\<close>: the facets are
  stripped everywhere and \<open>required\<close> is intersected with the keys of \<open>properties\<close>, but
  no \<open>description\<close> is added, since the root has none to append to. When the root has a
  description, only what was stripped at the root itself is appended to it: with
  \<open>description: "d"\<close> the result carries \<open>"d (no additional properties)"\<close>, without the
  \<open>minLength\<close> stripped inside \<open>x\<close>.
\<close>

theorem cleanJsonSchema_scenario5:
  "cleanJsonSchema scenario5 = JObj
     [(''type'', JStr ''object''),
      (''properties'', JObj [(''x'', JObj [(''type'', JStr ''string'')])]),
      (''required'', JArr [JStr ''x''])]
   \<and> cleanJsonSchema scenario5described = JObj
     [(''description'', JStr ''d (no additional properties)''),
      (''type'', JStr ''object''),
      (''properties'', JObj [(''x'', JObj [(''type'', JStr ''string'')])]),
      (''required'', JArr [JStr ''x''])]"
  by code_simp

theorem cleanJsonSchema_counterexample:
  "cleanJsonSchema scenario5 \<noteq> claimed5"
  by code_simp

subsection \<open>Thinking enablement\<close>




subsection \<open>Thought-signature placement\<close>

lemma findIndex_first:
  "findIndex P xs = Some i \<longleftrightarrow> i < length xs \<and> P (xs ! i) \<and> (\<forall>j < i. \<not> P (xs ! j))"
proof (induction xs arbitrary: i)
  case Nil
  then show ?case by simp
next
  case (Cons x xs)
  show ?case
  proof (cases "P x")
    case True
    then show ?thesis by (cases i) auto
  next
    case False
    show ?thesis
    proof (cases i)
      case 0
      then show ?thesis using False by simp
    next
      case (Suc k)
      have "(\<forall>j < Suc k. \<not> P ((x # xs) ! j)) \<longleftrightarrow> (\<forall>j < k. \<not> P (xs ! j))"
        using False by (auto simp: less_Suc_eq_0_disj)
      then show ?thesis
        using False Suc Cons.IH [of k] by auto
    qed
  qed
qed

lemma findIndex_None: "findIndex P xs = None \<longleftrightarrow> (\<forall>x \<in> set xs. \<not> P x)"
  by (induction xs) auto

lemma findLastIndex_None: "findLastIndex P xs = None \<longleftrightarrow> (\<forall>x \<in> set xs. \<not> P x)"
  by (induction xs) (auto split: option.splits)

lemma findLastIndex_last:
  "findLastIndex P xs = Some i \<longleftrightarrow>
     i < length xs \<and> P (xs ! i) \<and> (\<forall>j. i < j \<and> j < length xs \<longrightarrow> \<not> P (xs ! j))"
proof (induction xs arbitrary: i)
  case Nil
  then show ?case by simp
next
  case (Cons x xs)
  show ?case
  proof (cases "findLastIndex P xs")
    case None
    then have no: "\<forall>y \<in> set xs. \<not> P y"
      by (simp add: findLastIndex_None)
    show ?thesis
    proof (cases i)
      case 0
      then show ?thesis using None no by auto
    next
      case (Suc k)
      then show ?thesis using None no by auto
    qed
  next
    case (Some k)
    then have k: "k < length xs" "P (xs ! k)" "\<forall>j. k < j \<and> j < length xs \<longrightarrow> \<not> P (xs ! j)"
      using Cons.IH [of k] by auto
    show ?thesis
    proof (cases i)
      case 0
      then show ?thesis using Some k by auto
    next
      case (Suc i')
      have "(\<forall>j. Suc i' < j \<and> j < length (x # xs) \<longrightarrow> \<not> P ((x # xs) ! j))
          \<longleftrightarrow> (\<forall>j. i' < j \<and> j < length xs \<longrightarrow> \<not> P (xs ! j))"
        by (auto simp: less_Suc_eq_0_disj)
      then show ?thesis
        using Some Suc Cons.IH [of i'] by auto
    qed
  qed
qed

lemma convertBlock_unsigned:
  assumes "\<forall>p \<in> set (fst acc). thoughtSignature p = None"
  shows "\<forall>p \<in> set (fst (convertBlock f acc b)). thoughtSignature p = None"
proof -
  obtain ps sg where acc: "acc = (ps, sg)" by (cases acc)
  show ?thesis
    using assms unfolding acc
    by (cases "(f, (ps, sg), b)" rule: convertBlock.cases)
      (auto simp: plainPart_def thoughtPart_def)
qed

lemma foldl_convertBlock_unsigned:
  "\<forall>p \<in> set (fst acc). thoughtSignature p = None
     \<Longrightarrow> \<forall>p \<in> set (fst (foldl (convertBlock f) acc bs)). thoughtSignature p = None"
proof (induction bs arbitrary: acc)
  case Nil
  then show ?case by simp
next
  case (Cons b bs)
  show ?case
    using Cons.IH [OF convertBlock_unsigned [OF Cons.prems]] by simp
qed

lemma builtParts_unsigned: "\<forall>p \<in> set (builtParts f blocks). thoughtSignature p = None"
  unfolding builtParts_def using foldl_convertBlock_unsigned [of "([], [])"] by simp

lemma find_app:
  "find P (xs @ ys) = (case find P xs of None \<Rightarrow> find P ys | Some x \<Rightarrow> Some x)"
  by (induction xs) auto

lemma find_holds: "find P xs = Some x \<Longrightarrow> P x"
  by (induction xs) (auto split: if_splits)

lemma convertBlock_signature:
  "snd (convertBlock f (ps, sg) b)
     = (if sg \<noteq> [] then sg
        else case find (\<lambda>s. s \<noteq> []) (signatures [b]) of Some s \<Rightarrow> s | None \<Rightarrow> [])"
  by (cases "(f, (ps, sg), b)" rule: convertBlock.cases) (auto simp: signatures_def)

lemma foldl_convertBlock_signature:
  "snd (foldl (convertBlock f) (ps, sg) bs)
     = (if sg \<noteq> [] then sg
        else case firstSignature bs of Some s \<Rightarrow> s | None \<Rightarrow> [])"
proof (induction bs arbitrary: ps sg)
  case Nil
  then show ?case by (simp add: firstSignature_def signatures_def)
next
  case (Cons b bs)
  obtain ps' sg' where step: "convertBlock f (ps, sg) b = (ps', sg')"
    by (cases "convertBlock f (ps, sg) b")
  have sg': "sg' = (if sg \<noteq> [] then sg
        else case find (\<lambda>s. s \<noteq> []) (signatures [b]) of Some s \<Rightarrow> s | None \<Rightarrow> [])"
    using convertBlock_signature [of f ps sg b] step by simp
  have sigs: "signatures (b # bs) = signatures [b] @ signatures bs"
    by (simp add: signatures_def)
  show ?case
  proof (cases "find (\<lambda>s. s \<noteq> []) (signatures [b])")
    case None
    then show ?thesis
      using Cons.IH [of ps' sg'] sg'
      by (simp add: step firstSignature_def sigs find_app)
  next
    case (Some s)
    then show ?thesis
      using Cons.IH [of ps' sg'] sg' find_holds [OF Some]
      by (simp add: step firstSignature_def sigs find_app)
  qed
qed

lemma firstSignature_nonempty: "firstSignature bs = Some s \<Longrightarrow> s \<noteq> []"
  unfolding firstSignature_def by (rule find_holds)

lemma convert_with_signature:
  assumes "firstSignature blocks = Some s"
  shows "convertClaudeContentToGeminiParts f (BlockContent blocks)
       = applySignatureToParts (builtParts f blocks) s"
proof -
  obtain ps sg where fold: "foldl (convertBlock f) ([], []) blocks = (ps, sg)"
    by (cases "foldl (convertBlock f) ([], []) blocks")
  have "sg = s"
    using foldl_convertBlock_signature [of f "[]" "[]" blocks] fold assms by simp
  moreover have "s \<noteq> []"
    using assms by (rule firstSignature_nonempty)
  ultimately show ?thesis
    by (simp add: convertClaudeContentToGeminiParts_def fold builtParts_def)
qed

lemma carriers_setSignature:
  assumes "\<forall>p \<in> set ps. thoughtSignature p = None" and "i < length ps"
  shows "carriers (setSignature ps i s) = 1"
proof -
  have ps: "ps = take i ps @ ps ! i # drop (Suc i) ps"
    using assms(2) by (simp add: id_take_nth_drop)
  have upd: "setSignature ps i s
      = take i ps @ (ps ! i)\<lparr>thoughtSignature := Some s\<rparr> # drop (Suc i) ps"
    using assms(2) by (simp add: setSignature_def upd_conv_take_nth_drop)
  have "\<forall>p \<in> set (take i ps). thoughtSignature p = None"
    "\<forall>p \<in> set (drop (Suc i) ps). thoughtSignature p = None"
    using assms(1) by (auto dest: in_set_takeD in_set_dropD)
  then show ?thesis
    unfolding carriers_def upd by (simp add: filter_empty_conv)
qed

lemma carriers_unsigned: "\<forall>p \<in> set ps. thoughtSignature p = None \<Longrightarrow> carriers ps = 0"
  by (simp add: carriers_def filter_empty_conv)

lemma applySignature_priority:
  assumes unsigned: "\<forall>p \<in> set ps. thoughtSignature p = None"
  shows
    "(\<forall>i. i < length ps \<and> isFunctionCall (ps ! i) \<and> (\<forall>j < i. \<not> isFunctionCall (ps ! j))
          \<longrightarrow> applySignatureToParts ps s = setSignature ps i s)
     \<and> ((\<forall>p \<in> set ps. \<not> isFunctionCall p) \<longrightarrow>
          (\<forall>i. i < length ps \<and> isPlainText (ps ! i)
                \<and> (\<forall>j. i < j \<and> j < length ps \<longrightarrow> \<not> isPlainText (ps ! j))
              \<longrightarrow> applySignatureToParts ps s = setSignature ps i s))
     \<and> ((\<forall>p \<in> set ps. \<not> isFunctionCall p \<and> \<not> isPlainText p) \<longrightarrow>
          (\<forall>i. i < length ps \<and> thought (ps ! i)
                \<and> (\<forall>j. i < j \<and> j < length ps \<longrightarrow> \<not> thought (ps ! j))
              \<longrightarrow> applySignatureToParts ps s = setSignature ps i s))
     \<and> ((\<forall>p \<in> set ps. \<not> eligible p) \<longrightarrow> applySignatureToParts ps s = ps)
     \<and> carriers (applySignatureToParts ps s) = (if list_ex eligible ps then 1 else 0)"
proof -
  have fc: "applySignatureToParts ps s = setSignature ps i s"
    if "i < length ps" "isFunctionCall (ps ! i)" "\<forall>j < i. \<not> isFunctionCall (ps ! j)" for i
  proof -
    have "findIndex isFunctionCall ps = Some i"
      using that by (simp add: findIndex_first)
    then show ?thesis by (simp add: applySignatureToParts_def)
  qed
  have plain: "applySignatureToParts ps s = setSignature ps i s"
    if "\<forall>p \<in> set ps. \<not> isFunctionCall p" "i < length ps" "isPlainText (ps ! i)"
      "\<forall>j. i < j \<and> j < length ps \<longrightarrow> \<not> isPlainText (ps ! j)" for i
  proof -
    have "findIndex isFunctionCall ps = None"
      using that(1) by (simp add: findIndex_None)
    moreover have "findLastIndex isPlainText ps = Some i"
      using that(2,3,4) by (simp add: findLastIndex_last)
    ultimately show ?thesis by (simp add: applySignatureToParts_def)
  qed
  have thoughts: "applySignatureToParts ps s = setSignature ps i s"
    if "\<forall>p \<in> set ps. \<not> isFunctionCall p \<and> \<not> isPlainText p" "i < length ps" "thought (ps ! i)"
      "\<forall>j. i < j \<and> j < length ps \<longrightarrow> \<not> thought (ps ! j)" for i
  proof -
    have "findIndex isFunctionCall ps = None" "findLastIndex isPlainText ps = None"
      using that(1) by (simp_all add: findIndex_None findLastIndex_None)
    moreover have "findLastIndex thought ps = Some i"
      using that(2,3,4) by (simp add: findLastIndex_last)
    ultimately show ?thesis by (simp add: applySignatureToParts_def)
  qed
  have none: "applySignatureToParts ps s = ps" if "\<forall>p \<in> set ps. \<not> eligible p"
  proof -
    have "findIndex isFunctionCall ps = None" "findLastIndex isPlainText ps = None"
      "findLastIndex thought ps = None"
      using that by (simp_all add: findIndex_None findLastIndex_None eligible_def)
    then show ?thesis by (simp add: applySignatureToParts_def)
  qed
  have count: "carriers (applySignatureToParts ps s) = (if list_ex eligible ps then 1 else 0)"
  proof (cases "list_ex eligible ps")
    case False
    then have "\<forall>p \<in> set ps. \<not> eligible p"
      by (simp add: list_ex_iff)
    then show ?thesis
      using none False unsigned by (simp add: carriers_unsigned)
  next
    case True
    have "\<exists>i < length ps. applySignatureToParts ps s = setSignature ps i s"
    proof (cases "findIndex isFunctionCall ps")
      case (Some i)
      then show ?thesis
        using findIndex_first [of isFunctionCall ps i] by (auto simp: applySignatureToParts_def)
    next
      case noCall: None
      show ?thesis
      proof (cases "findLastIndex isPlainText ps")
        case (Some i)
        then show ?thesis
          using noCall findLastIndex_last [of isPlainText ps i]
          by (auto simp: applySignatureToParts_def)
      next
        case noText: None
        show ?thesis
        proof (cases "findLastIndex thought ps")
          case (Some i)
          then show ?thesis
            using noCall noText findLastIndex_last [of thought ps i]
            by (auto simp: applySignatureToParts_def)
        next
          case None
          then have "\<forall>p \<in> set ps. \<not> eligible p"
            using noCall noText
            by (simp add: findIndex_None findLastIndex_None eligible_def)
          then show ?thesis
            using True by (simp add: list_ex_iff)
        qed
      qed
    qed
    then show ?thesis
      using True unsigned carriers_setSignature by auto
  qed
  show ?thesis
    using fc plain thoughts none count by blast
qed

lemma claude_strips:
  assumes "convertClaudeToGeminiRequest f cfg rid rq token = Inr g"
    and "str_includes (g_model g) ''claude''"
  shows "\<forall>c \<in> set (contents g). \<forall>p \<in> set (c_parts c). thoughtSignature p = None"
proof -
  obtain msgs where msgs: "messages rq = Some msgs" "length msgs \<noteq> 0"
    using assms(1)
    by (auto simp: convertClaudeToGeminiRequest_def split: option.splits if_splits)
  define m where "m = (if model rq \<noteq> [] then model rq else ''gemini-2.0-flash-exp'')"
  obtain cs d where conv: "convertClaudeMessagesToGeminiContents f msgs m = (cs, d)"
    by (cases "convertClaudeMessagesToGeminiContents f msgs m")
  have g: "g_model g = m"
    "contents g = (if str_includes m ''claude'' then map stripThoughtSignature cs else cs)"
    using assms(1) msgs conv
    by (auto simp: convertClaudeToGeminiRequest_def Let_def m_def)
  then have "contents g = map stripThoughtSignature cs"
    using assms(2) by simp
  then show ?thesis
    by (auto simp: stripThoughtSignature_def)
qed

text \<open>
  C6 (as amended). For every turn whose content has a thinking block with a non-empty
  signature, the translation of its content attaches the first such signature by the
  strict priority first function call, else last non-thought text, else last thought:
  the result is the parts as built with the signature set on that one part. Exactly one
  produced part carries a signature when the turn produced a function call, a text or a
  thought part, and none does otherwise. The placement does not depend on the target
  model; only for a target whose name contains \<open>claude\<close> does the request translation
  strip the field from every part.
\<close>

theorem signature_placement:
  assumes "firstSignature blocks = Some s"
  shows
    "(\<forall>p \<in> set (builtParts f blocks). thoughtSignature p = None)
     \<and> (\<forall>i. i < length (builtParts f blocks) \<and> isFunctionCall (builtParts f blocks ! i)
              \<and> (\<forall>j < i. \<not> isFunctionCall (builtParts f blocks ! j))
          \<longrightarrow> convertClaudeContentToGeminiParts f (BlockContent blocks)
                = setSignature (builtParts f blocks) i s)
     \<and> ((\<forall>p \<in> set (builtParts f blocks). \<not> isFunctionCall p) \<longrightarrow>
          (\<forall>i. i < length (builtParts f blocks) \<and> isPlainText (builtParts f blocks ! i)
                \<and> (\<forall>j. i < j \<and> j < length (builtParts f blocks)
                       \<longrightarrow> \<not> isPlainText (builtParts f blocks ! j))
              \<longrightarrow> convertClaudeContentToGeminiParts f (BlockContent blocks)
                    = setSignature (builtParts f blocks) i s))
     \<and> ((\<forall>p \<in> set (builtParts f blocks). \<not> isFunctionCall p \<and> \<not> isPlainText p) \<longrightarrow>
          (\<forall>i. i < length (builtParts f blocks) \<and> thought (builtParts f blocks ! i)
                \<and> (\<forall>j. i < j \<and> j < length (builtParts f blocks)
                       \<longrightarrow> \<not> thought (builtParts f blocks ! j))
              \<longrightarrow> convertClaudeContentToGeminiParts f (BlockContent blocks)
                    = setSignature (builtParts f blocks) i s))
     \<and> ((\<forall>p \<in> set (builtParts f blocks). \<not> eligible p) \<longrightarrow>
          convertClaudeContentToGeminiParts f (BlockContent blocks) = builtParts f blocks)
     \<and> carriers (convertClaudeContentToGeminiParts f (BlockContent blocks))
          = (if list_ex eligible (builtParts f blocks) then 1 else 0)
     \<and> (\<forall>cfg rid rq token g.
           convertClaudeToGeminiRequest f cfg rid rq token = Inr g
             \<and> str_includes (g_model g) ''claude''
           \<longrightarrow> (\<forall>c \<in> set (contents g). carriers (c_parts c) = 0))"
proof -
  have out: "convertClaudeContentToGeminiParts f (BlockContent blocks)
      = applySignatureToParts (builtParts f blocks) s"
    using assms by (rule convert_with_signature)
  have claude: "\<forall>c \<in> set (contents g). carriers (c_parts c) = 0"
    if "convertClaudeToGeminiRequest f cfg rid rq token = Inr g"
      "str_includes (g_model g) ''claude''" for cfg rid rq token g
    using claude_strips [OF that] by (simp add: carriers_unsigned)
  show ?thesis
    unfolding out
    using applySignature_priority [OF builtParts_unsigned, of f blocks s] builtParts_unsigned
      claude
    by blast
qed

theorem signature_placement_witness:
  "firstSignature turn4 = Some ''S''
   \<and> convertClaudeContentToGeminiParts stringify0 (BlockContent turn4)
       = [\<lparr>body = PText ''t1'', thought = True, thoughtSignature = None\<rparr>,
          \<lparr>body = PText ''hi'', thought = False, thoughtSignature = Some ''S''\<rparr>]
   \<and> carriers (convertClaudeContentToGeminiParts stringify0 (BlockContent turn4)) = 1"
proof -
  have sig: "firstSignature turn4 = Some ''S''"
    by (simp add: firstSignature_def signatures_def turn4_def)
  have built: "builtParts stringify0 turn4
      = [\<lparr>body = PText ''t1'', thought = True, thoughtSignature = None\<rparr>,
         \<lparr>body = PText ''hi'', thought = False, thoughtSignature = None\<rparr>]"
    by (simp add: builtParts_def turn4_def thoughtPart_def plainPart_def)
  have call: "\<forall>p \<in> set (builtParts stringify0 turn4). \<not> isFunctionCall p"
    by (simp add: built isFunctionCall_def)
  have last: "1 < length (builtParts stringify0 turn4)
      \<and> isPlainText (builtParts stringify0 turn4 ! 1)
      \<and> (\<forall>j. 1 < j \<and> j < length (builtParts stringify0 turn4)
             \<longrightarrow> \<not> isPlainText (builtParts stringify0 turn4 ! j))"
    by (simp add: built isPlainText_def)
  have el: "list_ex eligible (builtParts stringify0 turn4)"
    by (simp add: built eligible_def)
  note placed = signature_placement [OF sig, of stringify0]
  have out: "convertClaudeContentToGeminiParts stringify0 (BlockContent turn4)
      = setSignature (builtParts stringify0 turn4) 1 ''S''"
    using placed call last by blast
  have count: "carriers (convertClaudeContentToGeminiParts stringify0 (BlockContent turn4)) = 1"
    using placed el by simp
  show ?thesis
    using sig count by (simp add: out built setSignature_def)
qed

theorem signature_counterexample:
  "\<not> str_includes ''gemini-2.5-flash'' ''gemini-3''
   \<and> \<not> str_includes ''gemini-2.5-flash'' ''claude''
   \<and> map_sum id (\<lambda>g. map (\<lambda>c. carriers (c_parts c)) (contents g))
         (convertClaudeToGeminiRequest stringify0 cfg0 ''r1'' (request4 ''gemini-2.5-flash'') tokA)
       = Inr [1]
   \<and> firstSignature turnNoTarget = Some ''S''
   \<and> carriers (convertClaudeContentToGeminiParts stringify0 (BlockContent turnNoTarget)) = 0"
  by code_simp

subsection \<open>Stream emitter\<close>





























subsection \<open>Token estimation\<close>

text \<open>
  C8 (as amended). For every non-empty text the estimator returns
  \<open>max(1, ceil(length(text) / 4))\<close>; for the empty string it returns 0. The request-level
  count, when \<open>messages\<close> is an array, is the estimate of the concatenated text and is
  exposed three times: \<open>input_tokens\<close> and its equal aliases \<open>token_count\<close> and \<open>tokens\<close>.
\<close>

theorem estimate_formula:
  "(text \<noteq> [] \<longrightarrow>
      estimateTokensFromText text = max 1 (nat \<lceil>real (length text) / 4\<rceil>)
      \<and> estimateTokensFromText text = (length text + 3) div 4)
   \<and> estimateTokensFromText [] = 0
   \<and> (messages request = Some msgs \<longrightarrow>
        (\<exists>c. countClaudeTokens stringify request = Inr c
            \<and> ct_input_tokens c = estimateTokensFromText (totalText stringify request msgs)
            \<and> ct_token_count c = ct_input_tokens c \<and> ct_tokens c = ct_input_tokens c))"
proof -
  have "max 1 ((length text + 3) div 4) = (length text + 3) div 4" if "text \<noteq> []"
  proof -
    have "0 < length text" using that by simp
    then have "1 \<le> (length text + 3) div 4" by presburger
    then show ?thesis by simp
  qed
  then show ?thesis
    by (auto simp: estimate_code ceiling_quarter countClaudeTokens_def Let_def)
qed

theorem estimate_formula_witness:
  "''hello'' \<noteq> [] \<and> estimateTokensFromText ''hello'' = 2
   \<and> messages (helloRequest ''gemini-2.5-pro'')
       = Some [\<lparr>role = ''user'', content = StringContent ''hello''\<rparr>]
   \<and> countClaudeTokens stringify0 (helloRequest ''gemini-2.5-pro'')
       = Inr \<lparr>ct_input_tokens = 2, ct_token_count = 2, ct_tokens = 2\<rparr>"
proof -
  have ne: "''hello'' \<noteq> []" by simp
  have m: "messages (helloRequest ''gemini-2.5-pro'')
       = Some [\<lparr>role = ''user'', content = StringContent ''hello''\<rparr>]"
    by (simp add: helloRequest_def)
  have tt: "totalText stringify0 (helloRequest ''gemini-2.5-pro'')
       [\<lparr>role = ''user'', content = StringContent ''hello''\<rparr>] = ''hello''"
    by (simp add: totalText_def extractTextFromClaudeMessages_def helloRequest_def)
  note est = estimate_formula [of "''hello''" "helloRequest ''gemini-2.5-pro''"
      "[\<lparr>role = ''user'', content = StringContent ''hello''\<rparr>]" stringify0]
  have e: "estimateTokensFromText ''hello'' = 2"
    using est ne by simp
  obtain c where c: "countClaudeTokens stringify0 (helloRequest ''gemini-2.5-pro'') = Inr c"
    "ct_input_tokens c = 2" "ct_token_count c = 2" "ct_tokens c = 2"
    using est m tt e by auto
  then have "c = \<lparr>ct_input_tokens = 2, ct_token_count = 2, ct_tokens = 2\<rparr>"
    by (cases c) simp
  then show ?thesis
    using ne e m c(1) by simp
qed

theorem estimate_empty_counterexample:
  "estimateTokensFromText [] \<noteq> max 1 (nat \<lceil>real (length ([] :: string)) / 4\<rceil>)"
  by (simp add: estimateTokensFromText_def)

end
